theory Spec2Isabelle
  imports Complex_Main "HOL-Library.Code_Target_Nat"
begin

section \<open>Strings\<close>

text \<open>
  A JavaScript string is represented by the bytes of its UTF-8 encoding (\<open>string\<close> is a
  list of 8-bit characters). ASCII text is one byte per UTF-16 code unit, so on ASCII the
  list operations below are the JavaScript ones; \<open>js_length\<close> recovers the number of UTF-16
  code units of a well-formed string (\<open>s.length\<close>).
\<close>

definition is_digit :: "char \<Rightarrow> bool" where
  "is_digit c = (c \<in> set ''0123456789'')"

definition digit_val :: "char \<Rightarrow> nat" where
  "digit_val c = of_char c - 48"

definition js_length :: "string \<Rightarrow> nat" where
  "js_length s =
     length (filter (\<lambda>c. \<not> (128 \<le> (of_char c :: nat) \<and> (of_char c :: nat) < 192)) s)
     + length (filter (\<lambda>c. 240 \<le> (of_char c :: nat)) s)"

text \<open>\<open>value.replace(/[^0-9]/g, '')\<close>: every character that is not an ASCII digit is removed.\<close>

definition strip_non_digits :: "string \<Rightarrow> string" where
  "strip_non_digits v = filter is_digit v"

text \<open>\<open>s.slice(0, n)\<close> on a string without characters beyond ASCII.\<close>

definition slice0 :: "nat \<Rightarrow> string \<Rightarrow> string" where
  "slice0 n s = take n s"

section \<open>Numbers\<close>

text \<open>
  A JavaScript number is an IEEE 754 binary64 value: not-a-number, an infinity, or a finite
  value. \<open>Infinity neg\<close> and \<open>Finite neg m\<close> carry the sign bit \<open>neg\<close> (so that \<open>-0\<close> is
  \<open>Finite True 0\<close>) and the magnitude \<open>m \<ge> 0\<close>, an exact rational.
\<close>

datatype number = NaN | Infinity bool | Finite bool rat

fun bit_length :: "nat \<Rightarrow> nat" where
  "bit_length n = (if n = 0 then 0 else Suc (bit_length (n div 2)))"

declare bit_length.simps [simp del]

text \<open>The integer nearest to \<open>q\<close>, a tie going to the even one.\<close>

definition round_half_even :: "rat \<Rightarrow> int" where
  "round_half_even q =
     (let f = \<lfloor>q\<rfloor>; d = q - of_int f
      in if d < 1 / 2 then f else if 1 / 2 < d then f + 1 else if even f then f else f + 1)"

text \<open>For \<open>0 < m\<close>, the \<open>e\<close> with \<open>2 ^ e \<le> m < 2 ^ (e + 1)\<close>.\<close>

definition binary_exponent :: "rat \<Rightarrow> int" where
  "binary_exponent m =
     (let (a, b) = quotient_of m;
          e = int (bit_length (nat a)) - int (bit_length (nat b))
      in if 2 powi e \<le> m then e else e - 1)"

text \<open>
  Rounding of a magnitude to binary64, to nearest with ties to even: 53 significant bits,
  exponents from \<open>-1022\<close> (below it the spacing stays \<open>2 ^ -1074\<close>) to \<open>1023\<close>; \<open>None\<close> when the
  rounded value leaves the range, which gives an infinity.
\<close>

definition roundToDouble :: "rat \<Rightarrow> rat option" where
  "roundToDouble m =
     (if m \<le> 0 then Some 0
      else let e = max (- 1022) (binary_exponent m);
               q = 2 powi (e - 52);
               r = of_int (round_half_even (m / q)) * q
           in if r \<noteq> 0 \<and> 1024 \<le> binary_exponent r then None else Some r)"

definition toNumber :: "bool \<Rightarrow> rat \<Rightarrow> number" where
  "toNumber neg m = (case roundToDouble m of None \<Rightarrow> Infinity neg | Some r \<Rightarrow> Finite neg r)"

text \<open>\<open>x * y\<close> on numbers.\<close>

fun js_mul :: "number \<Rightarrow> number \<Rightarrow> number" where
  "js_mul NaN _ = NaN"
| "js_mul _ NaN = NaN"
| "js_mul (Infinity s) (Infinity t) = Infinity (s \<noteq> t)"
| "js_mul (Infinity s) (Finite t m) = (if m = 0 then NaN else Infinity (s \<noteq> t))"
| "js_mul (Finite s m) (Infinity t) = (if m = 0 then NaN else Infinity (s \<noteq> t))"
| "js_mul (Finite s m) (Finite t n) = toNumber (s \<noteq> t) (m * n)"

text \<open>\<open>isNaN(x)\<close>, \<open>x <= 0\<close>, \<open>0 < x\<close> and the truth value of a number (\<open>x || ...\<close>).\<close>

definition isNaN :: "number \<Rightarrow> bool" where
  "isNaN x = (x = NaN)"

fun le_zero :: "number \<Rightarrow> bool" where
  "le_zero NaN = False"
| "le_zero (Infinity s) = s"
| "le_zero (Finite s m) = (s \<or> m = 0)"

fun positive :: "number \<Rightarrow> bool" where
  "positive NaN = False"
| "positive (Infinity s) = (\<not> s)"
| "positive (Finite s m) = (\<not> s \<and> 0 < m)"

fun truthy :: "number \<Rightarrow> bool" where
  "truthy NaN = False"
| "truthy (Infinity s) = True"
| "truthy (Finite s m) = (m \<noteq> 0)"

subsection \<open>parseFloat\<close>

text \<open>
  The length in bytes of the white space or line terminator character at the head of a
  string (\<open>StrWhiteSpaceChar\<close>), 0 when there is none: TAB, LF, VT, FF, CR, SP, and in UTF-8
  U+00A0, U+1680, U+2000 to U+200A, U+2028, U+2029, U+202F, U+205F, U+3000, U+FEFF.
\<close>

definition ws_len :: "string \<Rightarrow> nat" where
  "ws_len s =
     (case map of_char (take 3 s) :: nat list of
        [] \<Rightarrow> 0
      | b0 # bs \<Rightarrow>
          if b0 \<in> {9, 10, 11, 12, 13, 32} then 1
          else if b0 = 194 \<and> take 1 bs = [160] then 2
          else if b0 = 225 \<and> bs = [154, 128] then 3
          else if b0 = 226 \<and> take 1 bs = [128] \<and> length bs = 2
                  \<and> (last bs \<in> {128 ..< 139} \<or> last bs \<in> {168, 169, 175}) then 3
          else if b0 = 226 \<and> bs = [129, 159] then 3
          else if b0 = 227 \<and> bs = [128, 128] then 3
          else if b0 = 239 \<and> bs = [187, 191] then 3
          else 0)"

function trimStart :: "string \<Rightarrow> string" where
  "trimStart s = (if 0 < ws_len s \<and> ws_len s \<le> length s then trimStart (drop (ws_len s) s) else s)"
  by pat_completeness auto
termination
  by (relation "measure length") auto

declare trimStart.simps [simp del]

definition digits_value :: "string \<Rightarrow> nat" where
  "digits_value ds = foldl (\<lambda>a c. 10 * a + digit_val c) 0 ds"

text \<open>
  The value of the longest \<open>ExponentPart\<close> (\<open>e\<close> or \<open>E\<close>, an optional sign, digits) at the head
  of a string; 0 when there is none.
\<close>

definition exponent_part :: "string \<Rightarrow> int" where
  "exponent_part s =
     (case s of
        [] \<Rightarrow> 0
      | c # r \<Rightarrow>
          if c = CHR ''e'' \<or> c = CHR ''E'' then
            (case r of
               [] \<Rightarrow> 0
             | d # r' \<Rightarrow>
                 if d = CHR ''+'' \<or> d = CHR ''-'' then
                   (if takeWhile is_digit r' = [] then 0
                    else if d = CHR ''-'' then - int (digits_value (takeWhile is_digit r'))
                    else int (digits_value (takeWhile is_digit r')))
                 else int (digits_value (takeWhile is_digit r)))
          else 0)"

text \<open>
  The longest prefix that is a \<open>StrUnsignedDecimalLiteral\<close>: \<open>Infinity\<close>, or digits with an
  optional fraction and exponent, or a fraction with an optional exponent. The result is
  \<open>None\<close> when no prefix is one, \<open>Some None\<close> for \<open>Infinity\<close>, and otherwise the exact value
  of the literal.
\<close>

definition unsigned_literal :: "string \<Rightarrow> rat option option" where
  "unsigned_literal s =
     (if take 8 s = ''Infinity'' then Some None
      else
        let ip = takeWhile is_digit s; r1 = dropWhile is_digit s
        in case r1 of
             c # r2 \<Rightarrow>
               if c = CHR ''.'' then
                 (let fp = takeWhile is_digit r2; r3 = dropWhile is_digit r2
                  in if ip = [] \<and> fp = [] then None
                     else Some (Some (of_nat (digits_value (ip @ fp))
                                      * 10 powi (exponent_part r3 - int (length fp)))))
               else if ip = [] then None
               else Some (Some (of_nat (digits_value ip) * 10 powi exponent_part r1))
           | [] \<Rightarrow> if ip = [] then None else Some (Some (of_nat (digits_value ip))))"

definition signed_literal :: "string \<Rightarrow> number" where
  "signed_literal s =
     (let neg = (take 1 s = ''-'');
          u = (if take 1 s = ''-'' \<or> take 1 s = ''+'' then drop 1 s else s)
      in case unsigned_literal u of
           None \<Rightarrow> NaN
         | Some None \<Rightarrow> Infinity neg
         | Some (Some m) \<Rightarrow> toNumber neg m)"

definition parseFloat :: "string \<Rightarrow> number" where
  "parseFloat s = signed_literal (trimStart s)"

subsection \<open>Rendering numbers\<close>

definition digit_char :: "nat \<Rightarrow> char" where
  "digit_char d = char_of (48 + d)"

fun decimal_digits :: "nat \<Rightarrow> string" where
  "decimal_digits n =
     (if n < 10 then [digit_char n] else decimal_digits (n div 10) @ [digit_char (n mod 10)])"

declare decimal_digits.simps [simp del]

text \<open>Grouping of an integer part in threes from the right, with the \<open>es-VE\<close> separator.\<close>

fun group3 :: "string \<Rightarrow> string" where
  "group3 ds =
     (if length ds \<le> 3 then ds
      else group3 (take (length ds - 3) ds) @ ''.'' @ drop (length ds - 3) ds)"

declare group3.simps [simp del]

definition pad_left :: "nat \<Rightarrow> string \<Rightarrow> string" where
  "pad_left n ds = replicate (n - length ds) (CHR ''0'') @ ds"

text \<open>Trailing zeros of a fraction are dropped while more than \<open>mn\<close> digits remain.\<close>

fun strip_trailing_zeros :: "nat \<Rightarrow> string \<Rightarrow> string" where
  "strip_trailing_zeros mn ds =
     (if mn < length ds \<and> last ds = CHR ''0'' then strip_trailing_zeros mn (butlast ds) else ds)"

declare strip_trailing_zeros.simps [simp del]

definition round_half_expand :: "rat \<Rightarrow> nat" where
  "round_half_expand q = nat \<lfloor>q + 1 / 2\<rfloor>"

definition sign_text :: "bool \<Rightarrow> string" where
  "sign_text neg = (if neg then ''-'' else [])"

definition infinity_symbol :: string where
  "infinity_symbol = [CHR 0xE2, CHR 0x88, CHR 0x9E]"

text \<open>
  \<open>x.toLocaleString('es-VE', {minimumFractionDigits: mn, maximumFractionDigits: mx})\<close>:
  the exact value of the magnitude is rounded to \<open>mx\<close> fraction digits (a tie away from zero,
  as ECMA-402 words it), the integer part is grouped in threes with \<open>.\<close>, the fraction follows
  a \<open>,\<close> and loses trailing zeros down to \<open>mn\<close> digits; the minus sign follows the sign bit.
\<close>

definition toLocaleString :: "nat \<Rightarrow> nat \<Rightarrow> number \<Rightarrow> string" where
  "toLocaleString mn mx x =
     (case x of
        NaN \<Rightarrow> ''NaN''
      | Infinity neg \<Rightarrow> sign_text neg @ infinity_symbol
      | Finite neg m \<Rightarrow>
          let n = round_half_expand (m * 10 ^ mx);
              fp = (if mx = 0 then []
                    else strip_trailing_zeros mn (pad_left mx (decimal_digits (n mod 10 ^ mx))))
          in sign_text neg @ group3 (decimal_digits (n div 10 ^ mx))
             @ (if fp = [] then [] else '','' @ fp))"

text \<open>\<open>{minimumFractionDigits: 2, maximumFractionDigits: 2}\<close>, the Bs amount.\<close>

definition formatBs :: "number \<Rightarrow> string" where
  "formatBs x = toLocaleString 2 2 x"

text \<open>\<open>{minimumFractionDigits: 2}\<close>: the maximum is then 3 digits.\<close>

definition formatMin2 :: "number \<Rightarrow> string" where
  "formatMin2 x = toLocaleString 2 3 x"

subsection \<open>encodeURIComponent\<close>

definition hex_char :: "bool \<Rightarrow> nat \<Rightarrow> char" where
  "hex_char upper d = (if d < 10 then char_of (48 + d) else char_of ((if upper then 55 else 87) + d))"

definition uri_unreserved :: "char \<Rightarrow> bool" where
  "uri_unreserved c =
     (c \<in> set ''ABCDEFGHIJKLMNOPQRSTUVWXYZabcdefghijklmnopqrstuvwxyz0123456789-_.!~*()''
      \<or> c = CHR 0x27)"

definition percent_encode :: "char \<Rightarrow> string" where
  "percent_encode c =
     (if uri_unreserved c then [c]
      else [CHR ''%'', hex_char True (of_char c div 16), hex_char True (of_char c mod 16)])"

definition encodeURIComponent :: "string \<Rightarrow> string" where
  "encodeURIComponent s = concat (map percent_encode s)"

section \<open>Theme colours\<close>

definition hex_digit_val :: "char \<Rightarrow> nat option" where
  "hex_digit_val c =
     (let n = (of_char c :: nat)
      in if 48 \<le> n \<and> n \<le> 57 then Some (n - 48)
         else if 97 \<le> n \<and> n \<le> 102 then Some (n - 87)
         else if 65 \<le> n \<and> n \<le> 70 then Some (n - 55)
         else None)"

definition is_hex_digit :: "char \<Rightarrow> bool" where
  "is_hex_digit c = (hex_digit_val c \<noteq> None)"

definition hex_value :: "string \<Rightarrow> nat" where
  "hex_value ds = foldl (\<lambda>a c. 16 * a + the (hex_digit_val c)) 0 ds"

text \<open>
  \<open>parseInt(s, 16)\<close>: leading white space, an optional sign, an optional \<open>0x\<close> or \<open>0X\<close>, then
  the longest run of hexadecimal digits; \<open>None\<close> is \<open>NaN\<close> (no digit).
\<close>

definition parseInt16 :: "string \<Rightarrow> int option" where
  "parseInt16 s =
     (let t = trimStart s;
          neg = (take 1 t = ''-'');
          u = (if take 1 t = ''-'' \<or> take 1 t = ''+'' then drop 1 t else t);
          v = (if take 2 u = ''0x'' \<or> take 2 u = ''0X'' then drop 2 u else u);
          ds = takeWhile is_hex_digit v
      in if ds = [] then None
         else Some (if neg then - int (hex_value ds) else int (hex_value ds)))"

text \<open>\<open>n.toString(16)\<close> for an integer \<open>n \<ge> 0\<close>.\<close>

fun toString16 :: "nat \<Rightarrow> string" where
  "toString16 n =
     (if n < 16 then [hex_char False n] else toString16 (n div 16) @ [hex_char False (n mod 16)])"

declare toString16.simps [simp del]

text \<open>\<open>s.substr(-2)\<close>: the last two characters.\<close>

definition substr_last2 :: "string \<Rightarrow> string" where
  "substr_last2 s = drop (length s - 2) s"

text \<open>
  The replacement function of \<open>adjustColor\<close>:
  \<open>('0' + Math.min(255, Math.max(0, parseInt(color, 16) + amount)).toString(16)).substr(-2)\<close>.
  The amount is an integer (the callers pass \<open>-20\<close> and \<open>-40\<close>); \<open>NaN\<close> passes through
  \<open>+\<close>, \<open>Math.max\<close> and \<open>Math.min\<close> and prints as \<open>NaN\<close>.
\<close>

definition adjust_channel :: "int \<Rightarrow> string \<Rightarrow> string" where
  "adjust_channel amount color =
     (case parseInt16 color of
        None \<Rightarrow> substr_last2 (''0'' @ ''NaN'')
      | Some v \<Rightarrow> substr_last2 (''0'' @ toString16 (nat (min 255 (max 0 (v + amount))))))"

definition is_line_terminator :: "char \<Rightarrow> bool" where
  "is_line_terminator c = (c = CHR 0x0A \<or> c = CHR 0x0D)"

text \<open>
  \<open>s.replace(/../g, f)\<close> on ASCII text: scanning from the left, two adjacent characters that
  are not line terminators are replaced by \<open>f\<close> of the pair; a character that starts no
  such pair is kept.
\<close>

fun replace_pairs :: "(string \<Rightarrow> string) \<Rightarrow> string \<Rightarrow> string" where
  "replace_pairs f (a # b # rest) =
     (if \<not> is_line_terminator a \<and> \<not> is_line_terminator b then f [a, b] @ replace_pairs f rest
      else a # replace_pairs f (b # rest))"
| "replace_pairs f s = s"

text \<open>\<open>s.replace(/^#/, '')\<close>.\<close>

definition strip_hash :: "string \<Rightarrow> string" where
  "strip_hash s = (if take 1 s = ''#'' then drop 1 s else s)"

definition adjustColor :: "string \<Rightarrow> int \<Rightarrow> string" where
  "adjustColor color amount = ''#'' @ replace_pairs (adjust_channel amount) (strip_hash color)"

text \<open>\<open>s.slice(i, j)\<close> for \<open>0 \<le> i \<le> j\<close> on ASCII text.\<close>

definition slice :: "nat \<Rightarrow> nat \<Rightarrow> string \<Rightarrow> string" where
  "slice i j s = take (j - i) (drop i s)"

text \<open>An integer, or \<open>NaN\<close>, inside a template literal.\<close>

definition int_text :: "int option \<Rightarrow> string" where
  "int_text v =
     (case v of
        None \<Rightarrow> ''NaN''
      | Some i \<Rightarrow> (if i < 0 then ''-'' else []) @ decimal_digits (nat \<bar>i\<bar>))"

text \<open>
  \<open>hexToRgba(hex, alpha)\<close>; \<open>alpha\<close> is the text of the number in the template literal
  (\<open>0.2\<close> for the one call).
\<close>

definition hexToRgba :: "string \<Rightarrow> string \<Rightarrow> string" where
  "hexToRgba hex alpha =
     (let r = parseInt16 (slice 1 3 hex);
          g = parseInt16 (slice 3 5 hex);
          b = parseInt16 (slice 5 7 hex)
      in ''rgba('' @ int_text r @ '', '' @ int_text g @ '', '' @ int_text b @ '', '' @ alpha @ '')'')"

section \<open>Data model\<close>

record AppConfig =
  tasa :: number
  whatsapp :: string
  nombreNegocio :: string
  bankName :: string
  bankCode :: string
  cedula :: string
  telefono :: string
  themeColor :: string
  lastUpdate :: nat
  googleScriptUrl :: string

text \<open>\<open>DEFAULT_CONFIG\<close>; its \<open>lastUpdate\<close> is the clock when the module is loaded.\<close>

definition DEFAULT_CONFIG :: "nat \<Rightarrow> AppConfig" where
  "DEFAULT_CONFIG loaded =
     \<lparr> tasa = Finite False 60,
       whatsapp = ''584129855266'',
       nombreNegocio = ''Inversiones GSKY'',
       bankName = ''Banesco'',
       bankCode = ''0134'',
       cedula = ''14866713'',
       telefono = ''04129855266'',
       themeColor = ''#20963b'',
       lastUpdate = loaded,
       googleScriptUrl = ''https://script.google.com/macros/s/AKfycbwjeRpKBlmUcj5hG-n4d3VyYnQXghBNMqW_yRO1g_yuW57l97mnfhq-V3SEBZqzvAxZRw/exec'' \<rparr>"

text \<open>
  A snapshot of the stored configuration: any field may be absent, and
  \<open>{ ...DEFAULT_CONFIG, ...data }\<close> takes the default for it.
\<close>

record config_data =
  data_tasa :: "number option"
  data_whatsapp :: "string option"
  data_nombreNegocio :: "string option"
  data_bankName :: "string option"
  data_bankCode :: "string option"
  data_cedula :: "string option"
  data_telefono :: "string option"
  data_themeColor :: "string option"
  data_lastUpdate :: "nat option"
  data_googleScriptUrl :: "string option"

definition or_default :: "'a option \<Rightarrow> 'a \<Rightarrow> 'a" where
  "or_default v d = (case v of None \<Rightarrow> d | Some x \<Rightarrow> x)"

definition merge_config :: "AppConfig \<Rightarrow> config_data \<Rightarrow> AppConfig" where
  "merge_config d data =
     \<lparr> tasa = or_default (data_tasa data) (tasa d),
       whatsapp = or_default (data_whatsapp data) (whatsapp d),
       nombreNegocio = or_default (data_nombreNegocio data) (nombreNegocio d),
       bankName = or_default (data_bankName data) (bankName d),
       bankCode = or_default (data_bankCode data) (bankCode d),
       cedula = or_default (data_cedula data) (cedula d),
       telefono = or_default (data_telefono data) (telefono d),
       themeColor = or_default (data_themeColor data) (themeColor d),
       lastUpdate = or_default (data_lastUpdate data) (lastUpdate d),
       googleScriptUrl = or_default (data_googleScriptUrl data) (googleScriptUrl d) \<rparr>"

text \<open>A selected file: name, size in bytes, MIME type, and its content in base64.\<close>

record File =
  file_name :: string
  file_size :: nat
  file_type :: string
  file_base64 :: string

text \<open>The record pushed to \<open>payments\<close>.\<close>

record payment =
  pay_date :: string
  pay_amountUSD :: number
  pay_amountBs :: string
  pay_reference :: string
  pay_photoUrl :: "string option"
  pay_timestamp :: nat

text \<open>The body of the upload request.\<close>

record upload_payload =
  payload_filename :: string
  payload_mimeType :: string
  payload_file :: string

datatype toast_type = Success | Error | Info

datatype field = AmountInput | ReferenceInput

text \<open>What a handler does to the world outside the component state, in order.\<close>

datatype effect =
    ShowToast string toast_type
  | Focus field
  | ConsoleError string
  | Fetch string upload_payload
  | Push payment
  | WindowOpen string string
  | DbSet AppConfig
  | SetProperty string string
  | RevokeObjectURL string

text \<open>
  The component state the handlers below read and write (menu, login and history state are
  not touched by them).
\<close>

record app_state =
  config :: AppConfig
  amountUSD :: string
  amountBs :: string
  reference :: string
  selectedFile :: "File option"
  previewUrl :: "string option"
  isUploading :: bool
  errors_amount :: bool
  errors_reference :: bool
  toast_message :: string
  toast_kind :: toast_type
  toast_show :: bool
  editConfig :: AppConfig
  tasaInput :: string
  isSaving :: bool
  saveSuccess :: bool

definition initial_state :: "nat \<Rightarrow> app_state" where
  "initial_state loaded =
     \<lparr> config = DEFAULT_CONFIG loaded,
       amountUSD = [],
       amountBs = [],
       reference = [],
       selectedFile = None,
       previewUrl = None,
       isUploading = False,
       errors_amount = False,
       errors_reference = False,
       toast_message = [],
       toast_kind = Info,
       toast_show = False,
       editConfig = DEFAULT_CONFIG loaded,
       tasaInput = [],
       isSaving = False,
       saveSuccess = False \<rparr>"

section \<open>Handlers\<close>

text \<open>A handler returns the new state and the effects it caused.\<close>

type_synonym outcome = "app_state \<times> effect list"

definition showToast :: "string \<Rightarrow> toast_type \<Rightarrow> app_state \<Rightarrow> outcome" where
  "showToast message kind s =
     (s\<lparr>toast_message := message, toast_kind := kind, toast_show := True\<rparr>,
      [ShowToast message kind])"

definition updateTheme :: "string \<Rightarrow> effect list" where
  "updateTheme colorHex =
     [SetProperty ''--color-primary'' colorHex,
      SetProperty ''--color-primary-dark'' (adjustColor colorHex (- 20)),
      SetProperty ''--color-primary-darker'' (adjustColor colorHex (- 40)),
      SetProperty ''--color-primary-light'' ''#f3f4f6'',
      SetProperty ''--color-primary-lighter'' ''#f9fafb'',
      SetProperty ''--shadow-color'' (hexToRgba colorHex ''0.2'')]"

text \<open>
  The Bs text for a USD text and a rate, when the USD text is not empty and parses to a
  number: \<open>(parseFloat(value) * config.tasa).toLocaleString('es-VE', ...)\<close>.
\<close>

definition numeric_input :: "string \<Rightarrow> bool" where
  "numeric_input v = (v \<noteq> [] \<and> \<not> isNaN (parseFloat v))"

definition calculated :: "string \<Rightarrow> number \<Rightarrow> string" where
  "calculated v rate = formatBs (js_mul (parseFloat v) rate)"

definition handleAmountChange :: "string \<Rightarrow> app_state \<Rightarrow> app_state" where
  "handleAmountChange v s =
     (let s1 = s\<lparr>amountUSD := v, errors_amount := False\<rparr>
      in if numeric_input v then s1\<lparr>amountBs := calculated v (tasa (config s))\<rparr>
         else s1\<lparr>amountBs := []\<rparr>)"

text \<open>The effect that runs when \<open>config.tasa\<close> has changed.\<close>

definition tasa_effect :: "app_state \<Rightarrow> app_state" where
  "tasa_effect s =
     (if numeric_input (amountUSD s)
      then s\<lparr>amountBs := calculated (amountUSD s) (tasa (config s))\<rparr>
      else s)"

text \<open>
  The subscription callback for the stored configuration: nothing without data; otherwise
  the merged configuration replaces the current one, the theme follows it, and the rate
  effect runs when the rate is a different number.
\<close>

definition onConfigValue :: "nat \<Rightarrow> config_data option \<Rightarrow> app_state \<Rightarrow> outcome" where
  "onConfigValue loaded snapshot s =
     (case snapshot of
        None \<Rightarrow> (s, [])
      | Some data \<Rightarrow>
          let mergedConfig = merge_config (DEFAULT_CONFIG loaded) data;
              s1 = s\<lparr>config := mergedConfig\<rparr>;
              theme = updateTheme (if themeColor mergedConfig \<noteq> [] then themeColor mergedConfig
                                   else themeColor (DEFAULT_CONFIG loaded))
          in (if tasa mergedConfig \<noteq> tasa (config s) then tasa_effect s1 else s1, theme))"

definition handleReferenceChange :: "string \<Rightarrow> app_state \<Rightarrow> app_state" where
  "handleReferenceChange v s =
     s\<lparr>reference := slice0 4 (strip_non_digits v), errors_reference := False\<rparr>"

text \<open>
  \<open>handleFileSelect\<close>: \<open>files\<close> is \<open>e.target.files[0]\<close> when there is one, \<open>url\<close> the fresh
  address \<open>URL.createObjectURL\<close> returns. The cleanup of the preview effect revokes the
  address that is replaced.
\<close>

definition handleFileSelect :: "File option \<Rightarrow> string \<Rightarrow> app_state \<Rightarrow> outcome" where
  "handleFileSelect files url s =
     (case files of
        None \<Rightarrow> (s, [])
      | Some file \<Rightarrow>
          if 5 * 1024 * 1024 < file_size file
          then showToast ''La imagen es muy grande (Max 5MB)'' Error s
          else (s\<lparr>selectedFile := Some file, previewUrl := Some url\<rparr>,
                case previewUrl s of
                  None \<Rightarrow> []
                | Some old \<Rightarrow> if old \<noteq> [] \<and> old \<noteq> url then [RevokeObjectURL old] else []))"

definition clearFile :: "app_state \<Rightarrow> outcome" where
  "clearFile s =
     (s\<lparr>selectedFile := None, previewUrl := None\<rparr>,
      case previewUrl s of
        None \<Rightarrow> []
      | Some old \<Rightarrow> if old \<noteq> [] then [RevokeObjectURL old, RevokeObjectURL old] else [])"

subsection \<open>Submission\<close>

text \<open>
  What the world answers during one submission: whether the two inputs are mounted
  (\<open>ref.current\<close>), the clock readings, the course of the upload, whether the database
  handle exists and whether \<open>push\<close> throws, and the date and time texts.
\<close>

datatype upload_outcome =
    Read_failed
  | Request_failed
  | Response "string option" "string option"

record submit_env =
  amountInput_mounted :: bool
  referenceInput_mounted :: bool
  upload_clock :: nat
  upload_outcome :: upload_outcome
  db_available :: bool
  push_date :: string
  push_clock :: nat
  push_fails :: bool
  fecha :: string
  hora :: string

text \<open>
  \<open>uploadImageToDrive\<close>. \<open>Read_failed\<close>: \<open>fileToBase64\<close> rejects, before any request;
  \<open>Request_failed\<close>: \<open>fetch\<close> or \<open>response.json()\<close> rejects; \<open>Response result url\<close>: the fields
  of the JSON answer (\<open>None\<close> for an absent field). The result is the link or \<open>null\<close>.
\<close>

definition uploadImageToDrive :: "submit_env \<Rightarrow> File \<Rightarrow> app_state \<Rightarrow> string option \<times> outcome" where
  "uploadImageToDrive env file s =
     (if googleScriptUrl (config s) = [] then (None, showToast ''Error: Falta URL de Script'' Error s)
      else
        let payload = \<lparr> payload_filename =
                           ''pago_'' @ decimal_digits (upload_clock env) @ ''_'' @ file_name file,
                         payload_mimeType = file_type file,
                         payload_file = file_base64 file \<rparr>
        in case upload_outcome env of
             Read_failed \<Rightarrow> (None, s, [ConsoleError ''Upload Error:''])
           | Request_failed \<Rightarrow>
               (None, s, [Fetch (googleScriptUrl (config s)) payload, ConsoleError ''Upload Error:''])
           | Response result url \<Rightarrow>
               (if result = Some ''success'' then url else None, s,
                [Fetch (googleScriptUrl (config s)) payload]))"

definition nl :: string where
  "nl = [CHR 0x0A]"

definition emoji_calendar :: string where
  "emoji_calendar = [CHR 0xF0, CHR 0x9F, CHR 0x93, CHR 0x85]"

definition emoji_dollar :: string where
  "emoji_dollar = [CHR 0xF0, CHR 0x9F, CHR 0x92, CHR 0xB5]"

definition emoji_check :: string where
  "emoji_check = [CHR 0xE2, CHR 0x9C, CHR 0x85]"

definition emoji_numbers :: string where
  "emoji_numbers = [CHR 0xF0, CHR 0x9F, CHR 0x94, CHR 0xA2]"

definition emoji_camera :: string where
  "emoji_camera = [CHR 0xF0, CHR 0x9F, CHR 0x93, CHR 0xB7]"

definition mensaje :: "AppConfig \<Rightarrow> string \<Rightarrow> string \<Rightarrow> number \<Rightarrow> string \<Rightarrow> string \<Rightarrow> string \<Rightarrow> string" where
  "mensaje cfg fecha_text hora_text usd bs ref imageUrl =
     ''PAGO MOVIL - '' @ nombreNegocio cfg @ nl
     @ emoji_calendar @ '' '' @ fecha_text @ '' '' @ hora_text @ nl
     @ nl
     @ emoji_dollar @ '' '' @ formatMin2 usd @ '' USD (Tasa: '' @ formatMin2 (tasa cfg) @ '')'' @ nl
     @ emoji_check @ '' '' @ bs @ '' Bs'' @ nl
     @ nl
     @ emoji_numbers @ '' Ref: '' @ ref
     @ (if imageUrl \<noteq> [] then nl @ nl @ emoji_camera @ '' FOTO: '' @ imageUrl else [])"

definition whatsapp_url :: "AppConfig \<Rightarrow> string \<Rightarrow> string" where
  "whatsapp_url cfg text = ''https://wa.me/'' @ whatsapp cfg @ ''?text='' @ encodeURIComponent text"

text \<open>Steps 2 and 3 of \<open>handleNotifyPayment\<close>, once the image link (or none) is known.\<close>

definition save_and_send :: "submit_env \<Rightarrow> number \<Rightarrow> string \<Rightarrow> app_state \<Rightarrow> outcome" where
  "save_and_send env usd imageUrl s =
     (let newPayment = \<lparr> pay_date = push_date env,
                          pay_amountUSD = usd,
                          pay_amountBs = amountBs s,
                          pay_reference = reference s,
                          pay_photoUrl = (if imageUrl \<noteq> [] then Some imageUrl else None),
                          pay_timestamp = push_clock env \<rparr>;
          saved = (if db_available env
                   then Push newPayment
                        # (if push_fails env then [ConsoleError ''Error saving payment record:''] else [])
                   else []);
          url = whatsapp_url (config s)
                  (mensaje (config s) (fecha env) (hora env) usd (amountBs s) (reference s) imageUrl);
          (s1, toasts) = showToast ''Abriendo WhatsApp...'' Success (s\<lparr>isUploading := False\<rparr>)
      in (s1, saved @ [WindowOpen url ''_blank''] @ toasts))"

definition upload_error_text :: string where
  "upload_error_text = ''Error subiendo imagen. Verifica tu conexi'' @ [CHR 0xC3, CHR 0xB3] @ ''n.''"

text \<open>Step 1: the upload, when a file is selected; a missing or empty link ends the submission.\<close>

definition upload_and_continue :: "submit_env \<Rightarrow> number \<Rightarrow> app_state \<Rightarrow> outcome" where
  "upload_and_continue env usd s =
     (case selectedFile s of
        None \<Rightarrow> save_and_send env usd [] s
      | Some file \<Rightarrow>
          let (uploadedLink, s1, uploading) = uploadImageToDrive env file s
          in if uploadedLink = None \<or> uploadedLink = Some []
             then let (s2, toasts) = showToast upload_error_text Error s1
                  in (s2\<lparr>isUploading := False\<rparr>, uploading @ toasts)
             else let (s2, rest) = save_and_send env usd (or_default uploadedLink []) s1
                  in (s2, uploading @ rest))"

definition amount_error :: "app_state \<Rightarrow> bool" where
  "amount_error s =
     (amountUSD s = [] \<or> isNaN (parseFloat (amountUSD s)) \<or> le_zero (parseFloat (amountUSD s)))"

definition reference_error :: "app_state \<Rightarrow> bool" where
  "reference_error s = (js_length (reference s) \<noteq> 4)"

definition handleNotifyPayment :: "submit_env \<Rightarrow> app_state \<Rightarrow> outcome" where
  "handleNotifyPayment env s =
     (let usd = parseFloat (amountUSD s);
          focus = (if amount_error s \<and> amountInput_mounted env then [Focus AmountInput] else [])
                  @ (if reference_error s \<and> \<not> amount_error s \<and> referenceInput_mounted env
                     then [Focus ReferenceInput] else []);
          s1 = s\<lparr>errors_amount := amount_error s, errors_reference := reference_error s\<rparr>
      in if amount_error s \<or> reference_error s
         then let (s2, toasts) = showToast ''Por favor completa todos los campos'' Error s1
              in (s2, focus @ toasts)
         else upload_and_continue env usd (s1\<lparr>isUploading := True\<rparr>))"

subsection \<open>Admin settings\<close>

text \<open>The rate field accepts a new text when it matches \<open>/^\d*\.?\d*$/\<close>.\<close>

definition tasa_text_ok :: "string \<Rightarrow> bool" where
  "tasa_text_ok v =
     (case dropWhile is_digit v of
        [] \<Rightarrow> True
      | c # r \<Rightarrow> c = CHR ''.'' \<and> list_all is_digit r)"

definition handleTasaInput :: "string \<Rightarrow> app_state \<Rightarrow> app_state" where
  "handleTasaInput v s = (if tasa_text_ok v then s\<lparr>tasaInput := v\<rparr> else s)"

text \<open>\<open>enterSettings\<close>; \<open>tasa_text\<close> is \<open>config.tasa.toString()\<close>.\<close>

definition enterSettings :: "string \<Rightarrow> app_state \<Rightarrow> app_state" where
  "enterSettings tasa_text s = s\<lparr>editConfig := config s, tasaInput := tasa_text\<rparr>"

text \<open>\<open>parseFloat(tasaInput) || 0\<close>.\<close>

definition finalTasa :: "string \<Rightarrow> number" where
  "finalTasa v = (if truthy (parseFloat v) then parseFloat v else Finite False 0)"

record save_env =
  save_db_available :: bool
  save_clock :: nat
  set_fails :: bool

definition saveSettings :: "save_env \<Rightarrow> app_state \<Rightarrow> outcome" where
  "saveSettings env s =
     (if \<not> save_db_available env then (s, [])
      else
        let newConfig = (editConfig s)\<lparr>tasa := finalTasa (tasaInput s), lastUpdate := save_clock env\<rparr>
        in if set_fails env
           then let (s1, toasts) = showToast ''Error al guardar en Firebase'' Error
                                     (s\<lparr>isSaving := False, saveSuccess := False\<rparr>)
                in (s1, DbSet newConfig # toasts)
           else (s\<lparr>isSaving := False, saveSuccess := True\<rparr>,
                 DbSet newConfig # updateTheme (themeColor newConfig)))"

section \<open>The component as a state machine\<close>

datatype event =
    AmountChange string
  | ReferenceChange string
  | FileSelect "File option" string
  | ClearFile
  | ConfigValue "config_data option"
  | NotifyPayment submit_env
  | TasaInput string
  | EditConfig AppConfig
  | EnterSettings string
  | SaveSettings save_env

fun step :: "nat \<Rightarrow> event \<Rightarrow> app_state \<Rightarrow> outcome" where
  "step loaded (AmountChange v) s = (handleAmountChange v s, [])"
| "step loaded (ReferenceChange v) s = (handleReferenceChange v s, [])"
| "step loaded (FileSelect files url) s = handleFileSelect files url s"
| "step loaded ClearFile s = clearFile s"
| "step loaded (ConfigValue snapshot) s = onConfigValue loaded snapshot s"
| "step loaded (NotifyPayment env) s = handleNotifyPayment env s"
| "step loaded (TasaInput v) s = (handleTasaInput v s, [])"
| "step loaded (EditConfig c) s = (s\<lparr>editConfig := c\<rparr>, [])"
| "step loaded (EnterSettings t) s = (enterSettings t s, [])"
| "step loaded (SaveSettings env) s = saveSettings env s"

text \<open>The states the component can be in, from the first render on.\<close>

inductive reachable :: "nat \<Rightarrow> app_state \<Rightarrow> bool" for loaded :: nat where
  reachable_init: "reachable loaded (initial_state loaded)"
| reachable_step: "reachable loaded s \<Longrightarrow> reachable loaded (fst (step loaded e s))"

text \<open>Which effects are an upload request, a persistence write, an opened link.\<close>

fun is_Fetch :: "effect \<Rightarrow> bool" where
  "is_Fetch (Fetch u p) = True"
| "is_Fetch e = False"

fun is_Push :: "effect \<Rightarrow> bool" where
  "is_Push (Push p) = True"
| "is_Push e = False"

fun is_WindowOpen :: "effect \<Rightarrow> bool" where
  "is_WindowOpen (WindowOpen u t) = True"
| "is_WindowOpen e = False"

fun is_Focus :: "effect \<Rightarrow> bool" where
  "is_Focus (Focus f) = True"
| "is_Focus e = False"


text \<open>\<open>sub\<close> occurs in \<open>s\<close>.\<close>

fun contains :: "string \<Rightarrow> string \<Rightarrow> bool" where
  "contains sub [] = (sub = [])"
| "contains sub (c # cs) = (take (length sub) (c # cs) = sub \<or> contains sub cs)"

text \<open>
  The channel-wise adjustment as the specification words it: the amount is added to an
  8-bit channel, the sum is clamped to \<open>[0, 255]\<close> and written as two hexadecimal digits.
\<close>

definition channel_shade :: "int \<Rightarrow> nat \<Rightarrow> nat" where
  "channel_shade amount v = nat (min 255 (max 0 (int v + amount)))"

definition hex2 :: "nat \<Rightarrow> string" where
  "hex2 v = [hex_char False (v div 16), hex_char False (v mod 16)]"

text \<open>The form fields and the configuration are the same in two states.\<close>

definition same_form :: "app_state \<Rightarrow> app_state \<Rightarrow> bool" where
  "same_form s s' =
     (config s' = config s \<and> amountUSD s' = amountUSD s \<and> amountBs s' = amountBs s
      \<and> reference s' = reference s \<and> selectedFile s' = selectedFile s
      \<and> previewUrl s' = previewUrl s \<and> editConfig s' = editConfig s
      \<and> tasaInput s' = tasaInput s)"

text \<open>An upload that does not end in a \<open>success\<close> answer.\<close>

fun non_success :: "upload_outcome \<Rightarrow> bool" where
  "non_success Read_failed = True"
| "non_success Request_failed = True"
| "non_success (Response result url) = (result \<noteq> Some ''success'')"

text \<open>The addresses opened and the records pushed among some effects, in order.\<close>

fun opened_urls :: "effect list \<Rightarrow> string list" where
  "opened_urls [] = []"
| "opened_urls (WindowOpen u t # es) = u # opened_urls es"
| "opened_urls (e # es) = opened_urls es"

fun pushed :: "effect list \<Rightarrow> payment list" where
  "pushed [] = []"
| "pushed (Push p # es) = p # pushed es"
| "pushed (e # es) = pushed es"



subsection \<open>Example inputs\<close>

text \<open>The form after the USD text and then the reference text have been typed, from the first render.\<close>

definition typed_form :: "string \<Rightarrow> string \<Rightarrow> app_state" where
  "typed_form usd ref =
     fst (step 0 (ReferenceChange ref) (fst (step 0 (AmountChange usd) (initial_state 0))))"

definition example_file :: File where
  "example_file =
     \<lparr> file_name = ''recibo.png'', file_size = 2048, file_type = ''image/png'',
       file_base64 = ''iVBORw0KGgo='' \<rparr>"

text \<open>A submission during which the upload request fails and \<open>push\<close> throws.\<close>

definition example_env :: submit_env where
  "example_env =
     \<lparr> amountInput_mounted = True, referenceInput_mounted = True,
       upload_clock = 1793626200000, upload_outcome = Request_failed,
       db_available = True, push_date = ''2026-11-02T13:30:00.000Z'',
       push_clock = 1793626200500, push_fails = True,
       fecha = ''2/11/2026'', hora = ''09:30 a. m.'' \<rparr>"



section \<open>Properties\<close>

subsection \<open>Strings and the reference field\<close>

lemma is_digit_ascii: "is_digit c \<Longrightarrow> (of_char c :: nat) < 128"
  by (auto simp: is_digit_def)

lemma js_length_digits: "list_all is_digit s \<Longrightarrow> js_length s = length s"
proof (induction s)
  case Nil
  show ?case by (simp add: js_length_def)
next
  case (Cons c s)
  then have "(of_char c :: nat) < 128" by (simp add: is_digit_ascii)
  with Cons show ?case by (simp add: js_length_def)
qed

lemma strip_non_digits_all: "list_all is_digit (strip_non_digits v)"
  by (simp add: strip_non_digits_def list_all_iff)

lemma handleReferenceChange_digits:
  "list_all is_digit (reference (handleReferenceChange v s)) \<and>
   length (reference (handleReferenceChange v s)) \<le> 4"
proof -
  have "set (take 4 (strip_non_digits v)) \<subseteq> set (strip_non_digits v)"
    by (rule set_take_subset)
  then have "list_all is_digit (take 4 (strip_non_digits v))"
    using strip_non_digits_all [of v] by (auto simp: list_all_iff)
  then show ?thesis
    by (simp add: handleReferenceChange_def slice0_def)
qed

subsection \<open>What the handlers leave alone\<close>

lemma same_form_trans: "same_form a b \<Longrightarrow> same_form b c \<Longrightarrow> same_form a c"
  by (simp add: same_form_def)

lemma same_form_showToast: "same_form s (fst (showToast m k s))"
  by (simp add: same_form_def showToast_def)

lemma same_form_uploadImageToDrive: "same_form s (fst (snd (uploadImageToDrive env f s)))"
  by (simp add: uploadImageToDrive_def same_form_def showToast_def Let_def split: upload_outcome.split)

lemma same_form_save_and_send: "same_form s (fst (save_and_send env usd u s))"
  by (simp add: save_and_send_def same_form_def showToast_def Let_def)

lemma same_form_upload_and_continue: "same_form s (fst (upload_and_continue env usd s))"
proof (cases "selectedFile s")
  case None
  then show ?thesis
    by (simp add: upload_and_continue_def same_form_save_and_send)
next
  case (Some f)
  obtain link s1 es where up: "uploadImageToDrive env f s = (link, s1, es)"
    by (cases "uploadImageToDrive env f s") auto
  have s1: "same_form s s1"
    using same_form_uploadImageToDrive [of s env f] up by simp
  show ?thesis
  proof (cases "link = None \<or> link = Some []")
    case True
    have "same_form s1 ((fst (showToast upload_error_text Error s1))\<lparr>isUploading := False\<rparr>)"
      by (simp add: same_form_def showToast_def)
    with s1 True Some up show ?thesis
      by (auto simp: upload_and_continue_def split: prod.split intro: same_form_trans)
  next
    case False
    have "same_form s1 (fst (save_and_send env usd (or_default link []) s1))"
      by (rule same_form_save_and_send)
    with s1 False Some up show ?thesis
      by (auto simp: upload_and_continue_def split: prod.split intro: same_form_trans)
  qed
qed

lemma same_form_handleNotifyPayment: "same_form s (fst (handleNotifyPayment env s))"
proof (cases "amount_error s \<or> reference_error s")
  case True
  then show ?thesis
    by (auto simp add: handleNotifyPayment_def same_form_def showToast_def Let_def)
next
  case False
  let ?s1 = "s\<lparr>errors_amount := amount_error s, errors_reference := reference_error s,
                isUploading := True\<rparr>"
  have "same_form s ?s1"
    by (simp add: same_form_def)
  moreover have "same_form ?s1 (fst (upload_and_continue env (parseFloat (amountUSD s)) ?s1))"
    by (rule same_form_upload_and_continue)
  ultimately show ?thesis
    using False by (auto simp: handleNotifyPayment_def Let_def intro: same_form_trans)
qed

lemma step_reference:
  "reference (fst (step loaded e s)) =
     (case e of ReferenceChange v \<Rightarrow> slice0 4 (strip_non_digits v) | _ \<Rightarrow> reference s)"
proof (cases e)
  case (NotifyPayment env)
  then show ?thesis
    using same_form_handleNotifyPayment [of s env] by (simp add: same_form_def)
next
  case (SaveSettings env)
  then show ?thesis
    by (simp add: saveSettings_def showToast_def Let_def)
next
  case (ConfigValue snap)
  then show ?thesis
    by (simp add: onConfigValue_def tasa_effect_def Let_def split: option.split)
next
  case (FileSelect files url)
  then show ?thesis
    by (simp add: handleFileSelect_def showToast_def split: option.split)
qed (simp_all add: handleAmountChange_def handleReferenceChange_def clearFile_def
       handleTasaInput_def enterSettings_def Let_def)

lemma reachable_reference:
  "reachable loaded s \<Longrightarrow> list_all is_digit (reference s) \<and> length (reference s) \<le> 4"
proof (induction rule: reachable.induct)
  case reachable_init
  show ?case by (simp add: initial_state_def)
next
  case (reachable_step s e)
  show ?case
  proof (cases e)
    case (ReferenceChange v)
    then show ?thesis
      using handleReferenceChange_digits [of v s] by simp
  qed (use reachable_step.IH step_reference [of loaded e s] in simp_all)
qed

subsection \<open>The Bs field\<close>












subsection \<open>Evaluations\<close>

lemma pf_10: "parseFloat ''10'' = Finite False 10"
  by code_simp





lemma pf_empty: "parseFloat [] = NaN"
  by code_simp

subsection \<open>The submission step by step\<close>

lemma round_half_even_nonneg: "0 \<le> q \<Longrightarrow> 0 \<le> round_half_even q"
  by (simp add: round_half_even_def Let_def)

lemma roundToDouble_nonneg: "roundToDouble m = Some r \<Longrightarrow> 0 \<le> r"
proof (cases "m \<le> 0")
  case True
  assume "roundToDouble m = Some r"
  with True show ?thesis by (simp add: roundToDouble_def)
next
  case False
  assume r: "roundToDouble m = Some r"
  let ?q = "(2::rat) powi (max (- 1022) (binary_exponent m) - 52)"
  have q: "0 < ?q" by simp
  with False have "0 \<le> m / ?q" by simp
  then have "0 \<le> round_half_even (m / ?q)" by (rule round_half_even_nonneg)
  then have "0 \<le> of_int (round_half_even (m / ?q)) * ?q" using q by simp
  with r False show ?thesis
    by (simp add: roundToDouble_def Let_def split: if_splits)
qed

lemma toNumber_nonneg: "toNumber neg x = Finite n r \<Longrightarrow> 0 \<le> r"
  by (auto simp: toNumber_def split: option.splits dest: roundToDouble_nonneg)

lemma parseFloat_nonneg: "parseFloat v = Finite n r \<Longrightarrow> 0 \<le> r"
  by (auto simp: parseFloat_def signed_literal_def Let_def split: option.splits dest: toNumber_nonneg)

lemma amount_error_iff: "amount_error s \<longleftrightarrow> \<not> positive (parseFloat (amountUSD s))"
proof (cases "parseFloat (amountUSD s)")
  case NaN
  then show ?thesis by (simp add: amount_error_def isNaN_def)
next
  case (Infinity neg)
  then have "amountUSD s \<noteq> []" using pf_empty by auto
  with Infinity show ?thesis by (simp add: amount_error_def isNaN_def)
next
  case (Finite neg m)
  then have "amountUSD s \<noteq> []" using pf_empty by auto
  moreover have "0 \<le> m" using Finite by (rule parseFloat_nonneg)
  ultimately show ?thesis using Finite by (auto simp: amount_error_def isNaN_def)
qed

lemma reference_error_iff:
  "reachable loaded s \<Longrightarrow>
   reference_error s \<longleftrightarrow> \<not> (length (reference s) = 4 \<and> list_all is_digit (reference s))"
  using reachable_reference [of loaded s] by (auto simp: reference_error_def js_length_digits)

lemma handleNotifyPayment_invalid:
  "amount_error s \<or> reference_error s \<Longrightarrow>
   handleNotifyPayment env s =
     (s\<lparr>errors_amount := amount_error s, errors_reference := reference_error s,
        toast_message := ''Por favor completa todos los campos'', toast_kind := Error,
        toast_show := True\<rparr>,
      (if amount_error s \<and> amountInput_mounted env then [Focus AmountInput] else [])
      @ (if reference_error s \<and> \<not> amount_error s \<and> referenceInput_mounted env
         then [Focus ReferenceInput] else [])
      @ [ShowToast ''Por favor completa todos los campos'' Error])"
  by (simp add: handleNotifyPayment_def showToast_def Let_def)

lemma handleNotifyPayment_valid:
  "\<not> amount_error s \<Longrightarrow> \<not> reference_error s \<Longrightarrow>
   handleNotifyPayment env s =
     upload_and_continue env (parseFloat (amountUSD s))
       (s\<lparr>errors_amount := False, errors_reference := False, isUploading := True\<rparr>)"
  by (simp add: handleNotifyPayment_def Let_def)

lemma uploadImageToDrive_effects:
  "list_all (\<lambda>e. \<not> is_Push e \<and> \<not> is_WindowOpen e) (snd (snd (uploadImageToDrive env f s)))"
  by (simp add: uploadImageToDrive_def showToast_def Let_def split: upload_outcome.split)

lemma uploadImageToDrive_non_success:
  "non_success (upload_outcome env) \<Longrightarrow> fst (uploadImageToDrive env f s) = None"
  by (cases "upload_outcome env") (simp_all add: uploadImageToDrive_def Let_def)

lemma upload_failed:
  assumes "selectedFile s = Some f" and "fst (uploadImageToDrive env f s) = None \<or> fst (uploadImageToDrive env f s) = Some []"
  shows "snd (upload_and_continue env usd s) =
           snd (snd (uploadImageToDrive env f s)) @ [ShowToast upload_error_text Error]"
    and "isUploading (fst (upload_and_continue env usd s)) = False"
proof -
  obtain link s1 es where up: "uploadImageToDrive env f s = (link, s1, es)"
    by (cases "uploadImageToDrive env f s") auto
  with assms show "snd (upload_and_continue env usd s) =
           snd (snd (uploadImageToDrive env f s)) @ [ShowToast upload_error_text Error]"
    by (auto simp: upload_and_continue_def showToast_def)
  from up assms show "isUploading (fst (upload_and_continue env usd s)) = False"
    by (auto simp: upload_and_continue_def showToast_def)
qed








subsection \<open>The notification message\<close>

lemma contains_here: "contains sub (sub @ r)"
proof (cases "sub @ r")
  case Nil
  then show ?thesis by simp
next
  case (Cons c cs)
  have "take (length sub) (sub @ r) = sub" by simp
  then have "take (length sub) (c # cs) = sub" unfolding Cons .
  then have "contains sub (c # cs)" by simp
  then show ?thesis unfolding Cons .
qed

lemma contains_skip: "contains sub r \<Longrightarrow> contains sub (a @ r)"
  by (induction a) auto

lemma contains_iff: "contains sub s \<longleftrightarrow> (\<exists>a b. s = a @ sub @ b)"
proof
  show "contains sub s \<Longrightarrow> \<exists>a b. s = a @ sub @ b"
  proof (induction s)
    case Nil
    then show ?case by simp
  next
    case (Cons c cs)
    show ?case
    proof (cases "take (length sub) (c # cs) = sub")
      case True
      then have "c # cs = [] @ sub @ drop (length sub) (c # cs)"
        by (metis append_Nil append_take_drop_id)
      then show ?thesis by blast
    next
      case False
      with Cons.prems have "contains sub cs" by simp
      then obtain a b where "cs = a @ sub @ b" using Cons.IH by blast
      then have "c # cs = (c # a) @ sub @ b" by simp
      then show ?thesis by blast
    qed
  qed
next
  assume "\<exists>a b. s = a @ sub @ b"
  then obtain a b where "s = a @ sub @ b" by blast
  then show "contains sub s"
    by (simp add: contains_skip contains_here)
qed




subsection \<open>Digits followed by other text\<close>








subsection \<open>The example inputs\<close>

lemma pf_0: "parseFloat ''0'' = Finite False 0"
  by code_simp

lemma typed_form_fields:
  "amountUSD (typed_form usd ref) = usd"
  "selectedFile (typed_form usd ref) = None"
  "config (typed_form usd ref) = DEFAULT_CONFIG 0"
  "amountBs (typed_form usd ref) = (if numeric_input usd then calculated usd (Finite False 60) else [])"
  "isUploading (typed_form usd ref) = False"
  by (simp_all add: typed_form_def handleAmountChange_def handleReferenceChange_def initial_state_def
      DEFAULT_CONFIG_def Let_def)

lemma typed_form_reference: "reference (typed_form usd ref) = take 4 (filter is_digit ref)"
  by (simp add: typed_form_def handleAmountChange_def handleReferenceChange_def slice0_def
      strip_non_digits_def Let_def)

lemma typed_reference_1234: "reference (typed_form usd ''1234'') = ''1234''"
  by (simp add: typed_form_reference is_digit_def)

lemma js_length_1234: "js_length ''1234'' = 4"
  by code_simp

lemma example_env_fields:
  "amountInput_mounted example_env" "referenceInput_mounted example_env"
  "db_available example_env" "push_fails example_env"
  "upload_outcome example_env = Request_failed"
  "fecha example_env = ''2/11/2026''" "hora example_env = ''09:30 a. m.''"
  "push_date example_env = ''2026-11-02T13:30:00.000Z''" "push_clock example_env = 1793626200500"
  "upload_clock example_env = 1793626200000"
  by (simp_all add: example_env_def)

lemma reachable_typed_form: "reachable 0 (typed_form usd ref)"
  unfolding typed_form_def by (intro reachable_step reachable_init)

lemma with_file_fields:
  "selectedFile (fst (handleFileSelect (Some example_file) url s)) = Some example_file"
  "amountUSD (fst (handleFileSelect (Some example_file) url s)) = amountUSD s"
  "reference (fst (handleFileSelect (Some example_file) url s)) = reference s"
  "amountBs (fst (handleFileSelect (Some example_file) url s)) = amountBs s"
  "config (fst (handleFileSelect (Some example_file) url s)) = config s"
  "isUploading (fst (handleFileSelect (Some example_file) url s)) = isUploading s"
  by (simp_all add: handleFileSelect_def example_file_def)










subsection \<open>The saved rate\<close>









subsection \<open>Theme colours\<close>

lemma hex_digit_code:
  "is_hex_digit c \<Longrightarrow>
     (48 \<le> (of_char c :: nat) \<and> (of_char c :: nat) \<le> 57)
     \<or> (65 \<le> (of_char c :: nat) \<and> (of_char c :: nat) \<le> 70)
     \<or> (97 \<le> (of_char c :: nat) \<and> (of_char c :: nat) \<le> 102)"
  by (auto simp: is_hex_digit_def hex_digit_val_def Let_def split: if_splits)

lemma hex_digit_val_less: "is_hex_digit c \<Longrightarrow> the (hex_digit_val c) < 16"
  by (auto simp: is_hex_digit_def hex_digit_val_def Let_def split: if_splits)

lemma ws_len_printable:
  assumes "32 < (of_char c :: nat)" and "(of_char c :: nat) < 128"
  shows "ws_len (c # r) = 0"
proof -
  have "map of_char (take 3 (c # r)) = (of_char c :: nat) # map of_char (take 2 r)"
    by simp
  then show ?thesis
    using assms by (simp add: ws_len_def)
qed

lemma ws_len_hex: "is_hex_digit c \<Longrightarrow> ws_len (c # r) = 0"
  using hex_digit_code [of c] by (intro ws_len_printable) arith+

lemma trimStart_hex: "is_hex_digit c \<Longrightarrow> trimStart (c # r) = c # r"
  by (simp add: trimStart.simps [of "c # r"] ws_len_hex)

lemma hex_digit_not_special:
  "is_hex_digit c \<Longrightarrow> c \<noteq> CHR ''-'' \<and> c \<noteq> CHR ''+'' \<and> c \<noteq> CHR ''x'' \<and> c \<noteq> CHR ''X''
     \<and> c \<noteq> CHR ''#'' \<and> \<not> is_line_terminator c"
  using hex_digit_code [of c] by (auto simp: is_line_terminator_def)

lemma parseInt16_pair:
  assumes "is_hex_digit x" "is_hex_digit y"
  shows "parseInt16 [x, y] = Some (int (hex_value [x, y]))"
  using assms hex_digit_not_special [OF assms(1)] hex_digit_not_special [OF assms(2)]
  by (simp add: parseInt16_def trimStart_hex Let_def)

lemma hex_value_pair: "is_hex_digit x \<Longrightarrow> is_hex_digit y \<Longrightarrow> hex_value [x, y] < 256"
  using hex_digit_val_less [of x] hex_digit_val_less [of y] by (simp add: hex_value_def)

lemma hex_char_0: "hex_char False 0 = CHR ''0''"
  by code_simp

lemma substr_toString16: "n \<le> 255 \<Longrightarrow> substr_last2 (''0'' @ toString16 n) = hex2 n"
proof (cases "n < 16")
  case True
  then show ?thesis
    by (simp add: toString16.simps [of n] substr_last2_def hex2_def hex_char_0)
next
  case False
  assume "n \<le> 255"
  then have "n div 16 < 16" by simp
  with False show ?thesis
    by (simp add: toString16.simps [of n] toString16.simps [of "n div 16"] substr_last2_def hex2_def)
qed

lemma channel_shade_le: "channel_shade amount v \<le> 255"
  by (simp add: channel_shade_def)

lemma adjust_channel_pair:
  assumes "is_hex_digit x" "is_hex_digit y"
  shows "adjust_channel amount [x, y] = hex2 (channel_shade amount (hex_value [x, y]))"
  using substr_toString16 [OF channel_shade_le, of amount "hex_value [x, y]"]
  by (simp add: adjust_channel_def parseInt16_pair [OF assms] channel_shade_def)

lemma hex_digits_20963b: "list_all is_hex_digit ''20963b''"
  by code_simp

lemma adjust_20963b:
  "adjustColor ''#20963b'' (- 20) = ''#0c8227''" "adjustColor ''#20963b'' (- 40) = ''#006e13''"
  "hexToRgba ''#20963b'' ''0.2'' = ''rgba(32, 150, 59, 0.2)''"
  by code_simp+

subsection \<open>The claims\<close>



text \<open>
  C5. After any sequence of events from the first render, and after any further edit of the
  reference input from there, the stored reference consists of decimal digits only and has
  at most 4 characters: each edit stores the first 4 digits of the typed text.
\<close>

theorem reference_only_digits_at_most_four:
  assumes "reachable loaded s"
  shows "list_all is_digit (reference s) \<and> length (reference s) \<le> 4
         \<and> js_length (reference s) \<le> 4
         \<and> reference (handleReferenceChange v s) = take 4 (filter is_digit v)
         \<and> list_all is_digit (reference (handleReferenceChange v s))
         \<and> length (reference (handleReferenceChange v s)) \<le> 4"
proof -
  have inv: "list_all is_digit (reference s) \<and> length (reference s) \<le> 4"
    using assms by (rule reachable_reference)
  then have "js_length (reference s) \<le> 4"
    by (simp add: js_length_digits)
  moreover have "reference (handleReferenceChange v s) = take 4 (filter is_digit v)"
    by (simp add: handleReferenceChange_def slice0_def strip_non_digits_def)
  ultimately show ?thesis
    using inv handleReferenceChange_digits [of v s] by simp
qed

theorem reference_only_digits_at_most_four_witness:
  "reachable 0 (fst (step 0 (ReferenceChange ''12a345'') (initial_state 0)))
   \<and> reference (fst (step 0 (ReferenceChange ''12a345'') (initial_state 0))) = ''1234''
   \<and> reference (handleReferenceChange ''9-8 7''
        (fst (step 0 (ReferenceChange ''12a345'') (initial_state 0)))) = ''987''"
proof -
  have r: "reachable 0 (fst (step 0 (ReferenceChange ''12a345'') (initial_state 0)))"
    by (rule reachable_step [OF reachable_init])
  show ?thesis
    using r reference_only_digits_at_most_four [OF r, of "''9-8 7''"]
    by (simp add: handleReferenceChange_def slice0_def strip_non_digits_def is_digit_def)
qed

text \<open>
  C7. Selecting a file of more than 5 MB (5 * 1024 * 1024 bytes) produces the error notice
  and nothing else: the selected file and the preview address stay as they were, as do the
  other form fields.
\<close>

theorem oversized_file_leaves_selection:
  assumes "5 * 1024 * 1024 < file_size f"
  shows "snd (handleFileSelect (Some f) url s) = [ShowToast ''La imagen es muy grande (Max 5MB)'' Error]
         \<and> selectedFile (fst (handleFileSelect (Some f) url s)) = selectedFile s
         \<and> previewUrl (fst (handleFileSelect (Some f) url s)) = previewUrl s
         \<and> same_form s (fst (handleFileSelect (Some f) url s))"
  using assms by (simp add: handleFileSelect_def showToast_def same_form_def)

theorem oversized_file_leaves_selection_witness:
  "5 * 1024 * 1024 < file_size \<lparr>file_name = ''a.png'', file_size = 5242881, file_type = ''image/png'', file_base64 = ''AAAA''\<rparr>
   \<and> selectedFile (fst (handleFileSelect
         (Some \<lparr>file_name = ''a.png'', file_size = 5242881, file_type = ''image/png'', file_base64 = ''AAAA''\<rparr>)
         ''blob:1'' (initial_state 0))) = None
   \<and> previewUrl (fst (handleFileSelect
         (Some \<lparr>file_name = ''a.png'', file_size = 5242881, file_type = ''image/png'', file_base64 = ''AAAA''\<rparr>)
         ''blob:1'' (initial_state 0))) = None"
proof -
  have h: "5 * 1024 * 1024 < file_size \<lparr>file_name = ''a.png'', file_size = 5242881, file_type = ''image/png'', file_base64 = ''AAAA''\<rparr>"
    by simp
  show ?thesis
    using h oversized_file_leaves_selection [OF h, of "''blob:1''" "initial_state 0"]
    by (simp add: initial_state_def)
qed

text \<open>
  C2. A submission whose USD text does not parse to a positive number, or whose reference
  is not exactly 4 digits, fails: the error flag of each invalid field is set, the effects
  contain no upload request, no persistence write and no opened link, the notice asks to
  complete the fields, and the focus goes to the amount input when the amount is invalid
  and otherwise to the reference input.
\<close>

theorem invalid_submission_rejected:
  assumes "reachable loaded s"
    and "\<not> positive (parseFloat (amountUSD s))
         \<or> \<not> (length (reference s) = 4 \<and> list_all is_digit (reference s))"
  shows "errors_amount (fst (handleNotifyPayment env s)) = (\<not> positive (parseFloat (amountUSD s)))
         \<and> errors_reference (fst (handleNotifyPayment env s))
             = (\<not> (length (reference s) = 4 \<and> list_all is_digit (reference s)))
         \<and> \<not> list_ex is_Fetch (snd (handleNotifyPayment env s))
         \<and> \<not> list_ex is_Push (snd (handleNotifyPayment env s))
         \<and> \<not> list_ex is_WindowOpen (snd (handleNotifyPayment env s))
         \<and> last (snd (handleNotifyPayment env s)) = ShowToast ''Por favor completa todos los campos'' Error
         \<and> filter is_Focus (snd (handleNotifyPayment env s))
             = (if \<not> positive (parseFloat (amountUSD s))
                then (if amountInput_mounted env then [Focus AmountInput] else [])
                else (if referenceInput_mounted env then [Focus ReferenceInput] else []))
         \<and> same_form s (fst (handleNotifyPayment env s))"
proof -
  have a: "amount_error s = (\<not> positive (parseFloat (amountUSD s)))"
    by (rule amount_error_iff)
  have r: "reference_error s = (\<not> (length (reference s) = 4 \<and> list_all is_digit (reference s)))"
    using assms(1) by (rule reference_error_iff)
  from assms(2) a r have bad: "amount_error s \<or> reference_error s"
    by blast
  show ?thesis
    unfolding handleNotifyPayment_invalid [OF bad] a r
    using assms(2) by (auto simp: same_form_def)
qed

theorem invalid_submission_rejected_witness:
  "reachable 0 (typed_form ''0'' ''12'')
   \<and> parseFloat (amountUSD (typed_form ''0'' ''12'')) = Finite False 0
   \<and> reference (typed_form ''0'' ''12'') = ''12''
   \<and> errors_amount (fst (handleNotifyPayment example_env (typed_form ''0'' ''12'')))
   \<and> errors_reference (fst (handleNotifyPayment example_env (typed_form ''0'' ''12'')))
   \<and> filter is_Focus (snd (handleNotifyPayment example_env (typed_form ''0'' ''12''))) = [Focus AmountInput]
   \<and> pushed (snd (handleNotifyPayment example_env (typed_form ''0'' ''12''))) = []
   \<and> opened_urls (snd (handleNotifyPayment example_env (typed_form ''0'' ''12''))) = []"
proof -
  have r: "reachable 0 (typed_form ''0'' ''12'')"
    by (rule reachable_typed_form)
  have h: "\<not> positive (parseFloat (amountUSD (typed_form ''0'' ''12'')))
        \<or> \<not> (length (reference (typed_form ''0'' ''12'')) = 4
              \<and> list_all is_digit (reference (typed_form ''0'' ''12'')))"
    by (simp add: typed_form_fields typed_form_reference pf_0)
  have e: "snd (handleNotifyPayment example_env (typed_form ''0'' ''12''))
           = [Focus AmountInput, ShowToast ''Por favor completa todos los campos'' Error]"
    by (simp add: handleNotifyPayment_invalid amount_error_iff typed_form_fields pf_0 example_env_fields)
  show ?thesis
    using r h invalid_submission_rejected [OF r h, of example_env]
    by (simp add: e typed_form_fields typed_form_reference pf_0 example_env_fields is_digit_def)
qed

text \<open>
  C3. With an image attached, an upload that does not end in a \<open>success\<close> answer (or a
  request that fails) ends the submission with an error notice: nothing is pushed to the
  transaction store and no link is opened.
\<close>

theorem failed_upload_aborts_submission:
  assumes "selectedFile s = Some f"
    and "non_success (upload_outcome env)"
  shows "\<not> list_ex is_Push (snd (handleNotifyPayment env s))
         \<and> \<not> list_ex is_WindowOpen (snd (handleNotifyPayment env s))
         \<and> pushed (snd (handleNotifyPayment env s)) = []
         \<and> opened_urls (snd (handleNotifyPayment env s)) = []
         \<and> last (snd (handleNotifyPayment env s))
             = ShowToast (if amount_error s \<or> reference_error s
                          then ''Por favor completa todos los campos'' else upload_error_text) Error
         \<and> isUploading (fst (handleNotifyPayment env s))
             = (if amount_error s \<or> reference_error s then isUploading s else False)"
proof (cases "amount_error s \<or> reference_error s")
  case True
  show ?thesis
    unfolding handleNotifyPayment_invalid [OF True] using True by auto
next
  case False
  let ?s1 = "s\<lparr>errors_amount := False, errors_reference := False, isUploading := True\<rparr>"
  have sel: "selectedFile ?s1 = Some f"
    using assms(1) by simp
  have none: "fst (uploadImageToDrive env f ?s1) = None \<or> fst (uploadImageToDrive env f ?s1) = Some []"
    using uploadImageToDrive_non_success [OF assms(2)] by simp
  have eq: "handleNotifyPayment env s = upload_and_continue env (parseFloat (amountUSD s)) ?s1"
    using False by (simp add: handleNotifyPayment_valid)
  have effs: "snd (handleNotifyPayment env s)
                = snd (snd (uploadImageToDrive env f ?s1)) @ [ShowToast upload_error_text Error]"
    unfolding eq by (rule upload_failed(1) [OF sel none])
  have up: "isUploading (fst (handleNotifyPayment env s)) = False"
    unfolding eq by (rule upload_failed(2) [OF sel none])
  have quiet: "list_all (\<lambda>e. \<not> is_Push e \<and> \<not> is_WindowOpen e) (snd (snd (uploadImageToDrive env f ?s1)))"
    by (rule uploadImageToDrive_effects)
  have p: "pushed es = []" and o: "opened_urls es = []"
    if "list_all (\<lambda>e. \<not> is_Push e \<and> \<not> is_WindowOpen e) es" for es
    using that by (induction es rule: pushed.induct) simp_all
  have p2: "pushed (es @ [ShowToast m k]) = pushed es" and o2: "opened_urls (es @ [ShowToast m k]) = opened_urls es"
    for es m k
    by (induction es rule: pushed.induct) simp_all
  show ?thesis
    using False up quiet p [OF quiet] o [OF quiet]
    by (simp add: effs p2 o2 list_all_iff list_ex_iff)
qed

theorem failed_upload_aborts_submission_witness:
  "selectedFile (fst (handleFileSelect (Some example_file) ''blob:1'' (typed_form ''10'' ''1234'')))
     = Some example_file
   \<and> non_success (upload_outcome example_env)
   \<and> pushed (snd (handleNotifyPayment example_env
         (fst (handleFileSelect (Some example_file) ''blob:1'' (typed_form ''10'' ''1234''))))) = []
   \<and> opened_urls (snd (handleNotifyPayment example_env
         (fst (handleFileSelect (Some example_file) ''blob:1'' (typed_form ''10'' ''1234''))))) = []
   \<and> last (snd (handleNotifyPayment example_env
         (fst (handleFileSelect (Some example_file) ''blob:1'' (typed_form ''10'' ''1234'')))))
       = ShowToast upload_error_text Error"
proof -
  let ?s = "fst (handleFileSelect (Some example_file) ''blob:1'' (typed_form ''10'' ''1234''))"
  have f: "selectedFile ?s = Some example_file"
    by (rule with_file_fields)
  have n: "non_success (upload_outcome example_env)"
    by (simp add: example_env_fields)
  have v: "\<not> amount_error ?s" "\<not> reference_error ?s"
    by (simp_all add: amount_error_iff reference_error_def with_file_fields typed_form_fields
        pf_10 typed_reference_1234 js_length_1234)
  show ?thesis
    using f n v failed_upload_aborts_submission [OF f n] by simp
qed











text \<open>
  C8. For a colour of six hexadecimal digits, with or without the leading \<open>#\<close>, and an
  integer amount, \<open>adjustColor\<close> adds the amount to each 8-bit channel, clamps the sum to
  \<open>[0, 255]\<close> and writes it as two hexadecimal digits. The theme is a function of the colour
  alone: the two darker shades are the adjustments by \<open>-20\<close> and \<open>-40\<close>, the shadow tone is
  the three channels in decimal with opacity \<open>0.2\<close>.
\<close>

theorem adjustColor_channelwise:
  assumes "is_hex_digit r1" and "is_hex_digit r2" and "is_hex_digit g1" and "is_hex_digit g2"
    and "is_hex_digit b1" and "is_hex_digit b2"
  shows "adjustColor (CHR ''#'' # [r1, r2, g1, g2, b1, b2]) amount
           = ''#'' @ hex2 (channel_shade amount (hex_value [r1, r2]))
                 @ hex2 (channel_shade amount (hex_value [g1, g2]))
                 @ hex2 (channel_shade amount (hex_value [b1, b2]))
         \<and> adjustColor [r1, r2, g1, g2, b1, b2] amount
           = adjustColor (CHR ''#'' # [r1, r2, g1, g2, b1, b2]) amount
         \<and> hex_value [r1, r2] < 256 \<and> hex_value [g1, g2] < 256 \<and> hex_value [b1, b2] < 256
         \<and> channel_shade amount v = nat (min 255 (max 0 (int v + amount)))
         \<and> channel_shade amount v \<le> 255
         \<and> hexToRgba (CHR ''#'' # [r1, r2, g1, g2, b1, b2]) ''0.2''
           = ''rgba('' @ decimal_digits (hex_value [r1, r2]) @ '', ''
               @ decimal_digits (hex_value [g1, g2]) @ '', ''
               @ decimal_digits (hex_value [b1, b2]) @ '', 0.2)''
         \<and> updateTheme (CHR ''#'' # [r1, r2, g1, g2, b1, b2])
           = [SetProperty ''--color-primary'' (CHR ''#'' # [r1, r2, g1, g2, b1, b2]),
              SetProperty ''--color-primary-dark''
                (''#'' @ hex2 (channel_shade (- 20) (hex_value [r1, r2]))
                     @ hex2 (channel_shade (- 20) (hex_value [g1, g2]))
                     @ hex2 (channel_shade (- 20) (hex_value [b1, b2]))),
              SetProperty ''--color-primary-darker''
                (''#'' @ hex2 (channel_shade (- 40) (hex_value [r1, r2]))
                     @ hex2 (channel_shade (- 40) (hex_value [g1, g2]))
                     @ hex2 (channel_shade (- 40) (hex_value [b1, b2]))),
              SetProperty ''--color-primary-light'' ''#f3f4f6'',
              SetProperty ''--color-primary-lighter'' ''#f9fafb'',
              SetProperty ''--shadow-color''
                (''rgba('' @ decimal_digits (hex_value [r1, r2]) @ '', ''
                   @ decimal_digits (hex_value [g1, g2]) @ '', ''
                   @ decimal_digits (hex_value [b1, b2]) @ '', 0.2)'')]"
proof -
  note ns = hex_digit_not_special [OF assms(1)] hex_digit_not_special [OF assms(2)]
    hex_digit_not_special [OF assms(3)] hex_digit_not_special [OF assms(4)]
    hex_digit_not_special [OF assms(5)] hex_digit_not_special [OF assms(6)]
  have pairs: "replace_pairs (adjust_channel a) [r1, r2, g1, g2, b1, b2]
                 = hex2 (channel_shade a (hex_value [r1, r2]))
                   @ hex2 (channel_shade a (hex_value [g1, g2]))
                   @ hex2 (channel_shade a (hex_value [b1, b2]))" for a
    using ns
    by (simp add: adjust_channel_pair [OF assms(1,2)] adjust_channel_pair [OF assms(3,4)]
        adjust_channel_pair [OF assms(5,6)])
  have with_hash: "adjustColor (CHR ''#'' # [r1, r2, g1, g2, b1, b2]) a
           = ''#'' @ hex2 (channel_shade a (hex_value [r1, r2]))
                 @ hex2 (channel_shade a (hex_value [g1, g2]))
                 @ hex2 (channel_shade a (hex_value [b1, b2]))" for a
    using pairs [of a] by (simp add: adjustColor_def strip_hash_def)
  have without: "adjustColor [r1, r2, g1, g2, b1, b2] amount
           = adjustColor (CHR ''#'' # [r1, r2, g1, g2, b1, b2]) amount"
    using ns by (simp add: adjustColor_def strip_hash_def)
  have bounds: "hex_value [r1, r2] < 256" "hex_value [g1, g2] < 256" "hex_value [b1, b2] < 256"
    using assms by (simp_all add: hex_value_pair)
  have rgba: "hexToRgba (CHR ''#'' # [r1, r2, g1, g2, b1, b2]) ''0.2''
           = ''rgba('' @ decimal_digits (hex_value [r1, r2]) @ '', ''
               @ decimal_digits (hex_value [g1, g2]) @ '', ''
               @ decimal_digits (hex_value [b1, b2]) @ '', 0.2)''"
    by (simp add: hexToRgba_def slice_def parseInt16_pair [OF assms(1,2)]
        parseInt16_pair [OF assms(3,4)] parseInt16_pair [OF assms(5,6)] int_text_def Let_def)
  have theme: "updateTheme c = [SetProperty ''--color-primary'' c,
      SetProperty ''--color-primary-dark'' (adjustColor c (- 20)),
      SetProperty ''--color-primary-darker'' (adjustColor c (- 40)),
      SetProperty ''--color-primary-light'' ''#f3f4f6'',
      SetProperty ''--color-primary-lighter'' ''#f9fafb'',
      SetProperty ''--shadow-color'' (hexToRgba c ''0.2'')]" for c
    by (simp add: updateTheme_def)
  show ?thesis
    unfolding theme with_hash rgba
    using without with_hash [of amount] bounds channel_shade_le [of amount v]
    by (simp add: channel_shade_def)
qed

theorem adjustColor_channelwise_witness:
  "is_hex_digit (CHR ''2'') \<and> is_hex_digit (CHR ''0'') \<and> is_hex_digit (CHR ''9'')
   \<and> is_hex_digit (CHR ''6'') \<and> is_hex_digit (CHR ''3'') \<and> is_hex_digit (CHR ''b'')
   \<and> ''#'' @ hex2 (channel_shade (- 20) (hex_value ''20''))
          @ hex2 (channel_shade (- 20) (hex_value ''96''))
          @ hex2 (channel_shade (- 20) (hex_value ''3b'')) = ''#0c8227''
   \<and> updateTheme ''#20963b''
       = [SetProperty ''--color-primary'' ''#20963b'',
          SetProperty ''--color-primary-dark'' ''#0c8227'',
          SetProperty ''--color-primary-darker'' ''#006e13'',
          SetProperty ''--color-primary-light'' ''#f3f4f6'',
          SetProperty ''--color-primary-lighter'' ''#f9fafb'',
          SetProperty ''--shadow-color'' ''rgba(32, 150, 59, 0.2)'']"
proof -
  have h: "is_hex_digit (CHR ''2'')" "is_hex_digit (CHR ''0'')" "is_hex_digit (CHR ''9'')"
    "is_hex_digit (CHR ''6'')" "is_hex_digit (CHR ''3'')" "is_hex_digit (CHR ''b'')"
    using hex_digits_20963b by simp_all
  have u: "updateTheme ''#20963b''
       = [SetProperty ''--color-primary'' ''#20963b'',
          SetProperty ''--color-primary-dark'' ''#0c8227'',
          SetProperty ''--color-primary-darker'' ''#006e13'',
          SetProperty ''--color-primary-light'' ''#f3f4f6'',
          SetProperty ''--color-primary-lighter'' ''#f9fafb'',
          SetProperty ''--shadow-color'' ''rgba(32, 150, 59, 0.2)'']"
    by (simp only: updateTheme_def adjust_20963b)
  from adjustColor_channelwise [OF h, of "- 20" 0]
  have "adjustColor ''#20963b'' (- 20) = ''#'' @ hex2 (channel_shade (- 20) (hex_value ''20''))
          @ hex2 (channel_shade (- 20) (hex_value ''96''))
          @ hex2 (channel_shade (- 20) (hex_value ''3b''))"
    by simp
  then show ?thesis
    using h u by (simp only: adjust_20963b simp_thms)
qed

end
